theory Spec2Isabelle
  imports Complex_Main
begin

section \<open>Values of the source language\<close>

text \<open>
  The analysis engine is JavaScript. Its numbers are modelled as \<^typ>\<open>real\<close> (finite
  numbers in exact arithmetic; \<open>NaN\<close> and the infinities are outside the model), counts
  and array lengths as \<^typ>\<open>nat\<close>, and a string as the list of its code units, taken
  below 256 so that a code unit is a \<^typ>\<open>char\<close>. An object property that may be
  absent is an \<^typ>\<open>'a option\<close>.
\<close>

definition charCode :: "char \<Rightarrow> nat" where
  "charCode c = of_char c"

text \<open>The class \<open>\s\<close> of a regular expression, on code units below 256.\<close>

definition isSpace :: "char \<Rightarrow> bool" where
  "isSpace c = (let n = charCode c in (9 \<le> n \<and> n \<le> 13) \<or> n = 32 \<or> n = 160)"

text \<open>The class \<open>\w\<close>: letters, digits and the underscore of ASCII.\<close>

definition isWordChar :: "char \<Rightarrow> bool" where
  "isWordChar c = (let n = charCode c in
     (48 \<le> n \<and> n \<le> 57) \<or> (65 \<le> n \<and> n \<le> 90) \<or> n = 95 \<or> (97 \<le> n \<and> n \<le> 122))"

definition isUpper :: "char \<Rightarrow> bool" where
  "isUpper c = (let n = charCode c in
     (65 \<le> n \<and> n \<le> 90) \<or> (192 \<le> n \<and> n \<le> 222 \<and> n \<noteq> 215))"

text \<open>An upper-case code unit and its lower-case partner differ in bit 5 only.\<close>

definition lowerChar :: "char \<Rightarrow> char" where
  "lowerChar c = (if isUpper c
     then (case c of Char b0 b1 b2 b3 b4 b5 b6 b7 \<Rightarrow> Char b0 b1 b2 b3 b4 True b6 b7)
     else c)"

definition toLowerCase :: "string \<Rightarrow> string" where
  "toLowerCase s = map lowerChar s"

text \<open>
  \<open>s.split(/\s+/)\<close>: the pieces between maximal runs of white space. A string that
  starts or ends with white space yields an empty first or last piece, and a string
  without white space is its own single piece.
\<close>

function splitWs :: "string \<Rightarrow> string \<Rightarrow> string list" where
  "splitWs cur [] = [rev cur]"
| "splitWs cur (c # cs) =
     (if isSpace c then rev cur # splitWs [] (dropWhile isSpace cs)
      else splitWs (c # cur) cs)"
  by pat_completeness auto
termination
  by (relation "measure (\<lambda>(cur, s). length s)")
     (auto simp: length_dropWhile_le less_Suc_eq_le)

definition split_ws :: "string \<Rightarrow> string list" where
  "split_ws s = splitWs [] s"

text \<open>A destructuring default \<open>{ x = d }\<close>: the default replaces an absent property.\<close>

definition withDefault :: "'a \<Rightarrow> 'a option \<Rightarrow> 'a" where
  "withDefault d v = (case v of None \<Rightarrow> d | Some x \<Rightarrow> x)"

text \<open>The decimal digits of a count, and \<open>xs.join(sep)\<close>.\<close>

function showNat :: "nat \<Rightarrow> string" where
  "showNat n = (if n < 10 then [''0123456789'' ! n]
                else showNat (n div 10) @ [''0123456789'' ! (n mod 10)])"
  by pat_completeness auto
termination
  by (relation "measure id") auto

definition join :: "string \<Rightarrow> string list \<Rightarrow> string" where
  "join sep xs = (case xs of [] \<Rightarrow> [] | x # rest \<Rightarrow> x @ concat (map (\<lambda>y. sep @ y) rest))"

text \<open>
  \<open>Math.round\<close>, which rounds a half upwards, and the decimal form of a whole
  number (below \<open>10\<^sup>2\<^sup>1\<close>, from where on the source language prints an exponent).
\<close>

definition mathRound :: "real \<Rightarrow> int" where
  "mathRound x = \<lfloor>x + 1 / 2\<rfloor>"

definition showInt :: "int \<Rightarrow> string" where
  "showInt i = (if i < 0 then ''-'' else []) @ showNat (nat \<bar>i\<bar>)"

section \<open>Score calculator\<close>

record score_weights =
  w_likes :: real
  w_comments :: real
  w_shares :: real
  w_saves :: real
  w_watchTime :: real

definition SCORE_WEIGHTS :: score_weights where
  "SCORE_WEIGHTS = \<lparr> w_likes = 0.4, w_comments = 0.3, w_shares = 0.2,
                      w_saves = 0.1, w_watchTime = 0.2 \<rparr>"

record stress_weights =
  w_negativeSentiment :: real
  w_postFrequency :: real
  w_negativeWordDensity :: real

definition STRESS_WEIGHTS :: stress_weights where
  "STRESS_WEIGHTS = \<lparr> w_negativeSentiment = 0.6, w_postFrequency = 0.2,
                       w_negativeWordDensity = 0.2 \<rparr>"

definition RISK_KEYWORDS :: "string list" where
  "RISK_KEYWORDS =
    [''suicide'', ''kill myself'', ''end my life'', ''hopeless'', ''don't want to live'',
     ''depressed'', ''anxious'', ''overwhelmed'', ''can't go on'', ''tired of life'',
     ''self-harm'', ''self harm'', ''cutting'', ''suicidal'', ''want to die'',
     ''lonely'', ''alone'', ''nobody cares'', ''no one cares'', ''worthless'',
     ''useless'', ''failure'', ''hate myself'', ''disappointed in myself'']"

text \<open>
  The five normalised engagement components of \<open>calculateInterestScore\<close>, in the order
  likes, comments, shares, saves, watch time.
\<close>

definition normalizedEngagement ::
  "real option \<Rightarrow> real option \<Rightarrow> real option \<Rightarrow> real option \<Rightarrow> real option \<Rightarrow> real list" where
  "normalizedEngagement likes comments shares saves watchTime =
     [min (withDefault 0 likes / 100) 1,
      min (withDefault 0 comments / 10) 1,
      min (withDefault 0 shares / 5) 1,
      min (withDefault 0 saves / 20) 1,
      min (withDefault 0 watchTime / 300) 1]"

definition calculateInterestScore ::
  "real option \<Rightarrow> real option \<Rightarrow> real option \<Rightarrow> real option \<Rightarrow> real option \<Rightarrow> real" where
  "calculateInterestScore likes comments shares saves watchTime =
     (let normalizedLikes = min (withDefault 0 likes / 100) 1;
          normalizedComments = min (withDefault 0 comments / 10) 1;
          normalizedShares = min (withDefault 0 shares / 5) 1;
          normalizedSaves = min (withDefault 0 saves / 20) 1;
          normalizedWatchTime = min (withDefault 0 watchTime / 300) 1;
          score = (normalizedLikes * w_likes SCORE_WEIGHTS +
                   normalizedComments * w_comments SCORE_WEIGHTS +
                   normalizedShares * w_shares SCORE_WEIGHTS +
                   normalizedSaves * w_saves SCORE_WEIGHTS +
                   normalizedWatchTime * w_watchTime SCORE_WEIGHTS) * 100
      in min (max score 0) 100)"

text \<open>
  The two \<open>reduce\<close> calls of \<open>calculateStressScore\<close> over the post texts. A post that
  is falsy (the empty string) is skipped by both.
\<close>

definition totalWordsOf :: "string list \<Rightarrow> nat" where
  "totalWordsOf posts =
     foldl (\<lambda>sum post. if post = [] then sum else sum + length (split_ws post)) 0 posts"

definition riskWordCountOf :: "string list \<Rightarrow> nat" where
  "riskWordCountOf posts =
     foldl (\<lambda>sum post. if post = [] then sum
        else sum + length (filter (\<lambda>word. word \<in> set RISK_KEYWORDS)
                             (split_ws (toLowerCase post)))) 0 posts"

definition calculateStressScore ::
  "real option \<Rightarrow> real option \<Rightarrow> real option \<Rightarrow> string list option \<Rightarrow> real" where
  "calculateStressScore sentiment negativePercentage postFrequency posts =
     (let normalizedSentiment = (withDefault 0 sentiment + 1) / 2;
          negativeContentScore = withDefault 0 negativePercentage / 100;
          normalizedPostFrequency = min (withDefault 0 postFrequency / 10) 1;
          ps = withDefault [] posts;
          riskKeywordDensity =
            (if length ps > 0
             then (let totalWords = totalWordsOf ps in
                   if totalWords > 0
                   then min (real (riskWordCountOf ps) / real totalWords) 1
                   else 0)
             else 0);
          stressScore = ((1 - normalizedSentiment) * w_negativeSentiment STRESS_WEIGHTS +
                         negativeContentScore * w_negativeWordDensity STRESS_WEIGHTS +
                         normalizedPostFrequency * w_postFrequency STRESS_WEIGHTS +
                         riskKeywordDensity * 0.3) * 100
      in min (max stressScore 0) 100)"

text \<open>
  The route module carries helpers of its own under the same two names, with other
  saturation caps (shares by 20, saves by 10, watch time by 60) and the weights
  0.4, 0.3, 0.2, 0.05, 0.05.
\<close>

definition normalizedEngagement_route ::
  "real option \<Rightarrow> real option \<Rightarrow> real option \<Rightarrow> real option \<Rightarrow> real option \<Rightarrow> real list" where
  "normalizedEngagement_route likes comments shares saves watchTime =
     [min (withDefault 0 likes / 100) 1,
      min (withDefault 0 comments / 10) 1,
      min (withDefault 0 shares / 20) 1,
      min (withDefault 0 saves / 10) 1,
      min (withDefault 0 watchTime / 60) 1]"

definition calculateInterestScore_route ::
  "real option \<Rightarrow> real option \<Rightarrow> real option \<Rightarrow> real option \<Rightarrow> real option \<Rightarrow> real" where
  "calculateInterestScore_route likes comments shares saves watchTime =
     (let normalizedLikes = min (withDefault 0 likes / 100) 1;
          normalizedComments = min (withDefault 0 comments / 10) 1;
          normalizedShares = min (withDefault 0 shares / 20) 1;
          normalizedSaves = min (withDefault 0 saves / 10) 1;
          normalizedWatchTime = min (withDefault 0 watchTime / 60) 1;
          score = ((normalizedLikes * 0.4) +
                   (normalizedComments * 0.3) +
                   (normalizedShares * 0.2) +
                   (normalizedSaves * 0.05) +
                   (normalizedWatchTime * 0.05)) * 100
      in min (max score 0) 100)"

section \<open>Risk keyword detector\<close>

subsection \<open>Whole-word, case-insensitive search\<close>

text \<open>
  A tier's pattern is \<open>new RegExp('\\b(k1|k2|...)\\b', 'gi')\<close>. Under the flag \<open>i\<close>
  two code units match when their canonical (upper-case) forms agree; on code units
  below 256 the lower-case letters are the ones with another canonical form, which
  differs from them in bit 5.
\<close>

definition hasUpperForm :: "char \<Rightarrow> bool" where
  "hasUpperForm c = (let n = charCode c in
     (97 \<le> n \<and> n \<le> 122) \<or> (224 \<le> n \<and> n \<le> 254 \<and> n \<noteq> 247))"

definition canonicalize :: "char \<Rightarrow> char" where
  "canonicalize c = (if hasUpperForm c
     then (case c of Char b0 b1 b2 b3 b4 b5 b6 b7 \<Rightarrow> Char b0 b1 b2 b3 b4 False b6 b7)
     else c)"

text \<open>
  The assertion \<open>\b\<close> at a position: exactly one of the code unit before it and the
  code unit after it is a word character. The first argument tells whether the code
  unit before the position is one (\<open>False\<close> at the start of the string), the second
  is the rest of the string from the position on.
\<close>

definition wordBoundary :: "bool \<Rightarrow> string \<Rightarrow> bool" where
  "wordBoundary prevWord rest =
     (prevWord \<noteq> (case rest of [] \<Rightarrow> False | c # _ \<Rightarrow> isWordChar c))"

text \<open>
  A keyword is read code unit by code unit; what comes back is the piece of the text
  that was read.
\<close>

fun matchLiteral :: "string \<Rightarrow> string \<Rightarrow> string option" where
  "matchLiteral [] rest = Some []"
| "matchLiteral (k # ks) [] = None"
| "matchLiteral (k # ks) (c # cs) =
     (if canonicalize c = canonicalize k then map_option ((#) c) (matchLiteral ks cs)
      else None)"

text \<open>
  The alternatives are tried in the order of the keyword list; an alternative succeeds
  when the text continues with it and a word boundary follows, and the first one that
  succeeds gives the match.
\<close>

fun tryAlternatives :: "string list \<Rightarrow> bool \<Rightarrow> string \<Rightarrow> string option" where
  "tryAlternatives [] prevWord rest = None"
| "tryAlternatives (k # ks) prevWord rest =
     (case matchLiteral k rest of
        None \<Rightarrow> tryAlternatives ks prevWord rest
      | Some piece \<Rightarrow>
          if wordBoundary (if piece = [] then prevWord else isWordChar (last piece))
               (drop (length piece) rest)
          then Some piece
          else tryAlternatives ks prevWord rest)"

definition matchAt :: "string list \<Rightarrow> bool \<Rightarrow> string \<Rightarrow> string option" where
  "matchAt kws prevWord rest =
     (if wordBoundary prevWord rest then tryAlternatives kws prevWord rest else None)"

text \<open>
  \<open>text.match(pattern)\<close> with the flag \<open>g\<close>: all matches from left to right, each
  search starting where the previous match ended (one code unit further after an
  empty match).
\<close>

function scanFrom :: "string list \<Rightarrow> bool \<Rightarrow> string \<Rightarrow> string list" where
  "scanFrom kws prevWord [] =
     (case matchAt kws prevWord [] of None \<Rightarrow> [] | Some m \<Rightarrow> [m])"
| "scanFrom kws prevWord (c # cs) =
     (case matchAt kws prevWord (c # cs) of
        None \<Rightarrow> scanFrom kws (isWordChar c) cs
      | Some m \<Rightarrow>
          m # scanFrom kws (isWordChar (last (c # take (length m - 1) cs)))
                (drop (length m - 1) cs))"
  by pat_completeness auto
termination
  by (relation "measure (\<lambda>(kws, prevWord, s). length s)") auto

definition matchPattern :: "string list \<Rightarrow> string \<Rightarrow> string list" where
  "matchPattern kws s = scanFrom kws False s"

text \<open>\<open>[...new Set(xs)]\<close>: the first occurrence of every element, in order.\<close>

function uniq :: "'a list \<Rightarrow> 'a list" where
  "uniq [] = []"
| "uniq (x # xs) = x # uniq (filter (\<lambda>y. y \<noteq> x) xs)"
  by pat_completeness auto
termination
  by (relation "measure length") (auto simp: less_Suc_eq_le)

subsection \<open>Records and findings\<close>

record sentiment_obj =
  s_score :: "real option"

record metrics_obj =
  m_likes :: "real option"
  m_comments :: "real option"
  m_shares :: "real option"
  m_saves :: "real option"
  m_watchTimeSeconds :: "real option"
  m_sentiment :: "sentiment_obj option"

text \<open>
  A post record: \<open>pm_id\<close> is the string form of \<open>_id\<close> (empty when the record has
  none), \<open>pm_timestamp\<close> the time value of the record's date in milliseconds,
  \<open>pm_text\<close> the post text (empty when the record has none), \<open>pm_metrics\<close> the
  \<open>metrics\<close> object, which validation finds present or not.
\<close>

record post_metric =
  pm_id :: string
  pm_provider :: string
  pm_timestamp :: int
  pm_text :: string
  pm_metrics :: "metrics_obj option"

datatype severity = SevNone | SevHigh | SevMedium | SevLow

datatype risk_level = LevelNone | LevelLow | LevelLowMedium | LevelMedium
  | LevelMediumHigh | LevelHigh

text \<open>A context snippet, and an entry of \<open>riskPosts\<close>.\<close>

record context_snippet =
  cs_keyword :: string
  cs_snippet :: string
  cs_position :: string

record risk_post =
  rp_id :: string
  rp_text :: string
  rp_timestamp :: int
  rp_matches :: "string list"
  rp_severity :: severity
  rp_context :: "context_snippet list"

definition RISK_KEYWORDS_high :: "string list" where
  "RISK_KEYWORDS_high =
     [''suicide'', ''kill myself'', ''end my life'', ''suicidal'',
      ''self-harm'', ''self harm'', ''cutting'', ''want to die'']"

definition RISK_KEYWORDS_medium :: "string list" where
  "RISK_KEYWORDS_medium =
     [''hopeless'', ''can't go on'', ''tired of life'',
      ''no reason to live'', ''give up'']"

definition RISK_KEYWORDS_low :: "string list" where
  "RISK_KEYWORDS_low =
     [''depressed'', ''anxious'', ''overwhelmed'', ''lonely'',
      ''alone'', ''nobody cares'', ''no one cares'', ''worthless'',
      ''useless'', ''failure'', ''hate myself'', ''disappointed in myself'']"

text \<open>
  The three tier checks on the lower-cased text, in the order of the source: each
  later check runs only while \<open>severity\<close> is still \<open>'none'\<close>. The result is the
  severity and \<open>allMatches\<close>, the three match lists in a row.
\<close>

definition scanTiers :: "string \<Rightarrow> severity \<times> string list" where
  "scanTiers txt =
     (let highMatches = matchPattern RISK_KEYWORDS_high txt;
          (matches_high, severity) =
             (if highMatches \<noteq> [] then (uniq highMatches, SevHigh) else ([], SevNone));
          (matches_medium, severity) =
             (if severity = SevNone
              then (let mediumMatches = matchPattern RISK_KEYWORDS_medium txt in
                    if mediumMatches \<noteq> [] then (uniq mediumMatches, SevMedium)
                    else ([], severity))
              else ([], severity));
          (matches_low, severity) =
             (if severity = SevNone
              then (let lowMatches = matchPattern RISK_KEYWORDS_low txt in
                    if lowMatches \<noteq> [] then (uniq lowMatches, SevLow)
                    else ([], severity))
              else ([], severity))
      in (severity, matches_high @ matches_medium @ matches_low))"

definition excerpt :: "string \<Rightarrow> string" where
  "excerpt t = (if length t > 200 then take 200 t @ ''...'' else t)"

subsection \<open>Context snippets\<close>

text \<open>\<open>s.includes(sub)\<close> and \<open>xs.findIndex(p)\<close>, which is \<open>None\<close> for \<open>-1\<close>.\<close>

fun includesStr :: "string \<Rightarrow> string \<Rightarrow> bool" where
  "includesStr sub [] = (sub = [])"
| "includesStr sub (c # cs) = (take (length sub) (c # cs) = sub \<or> includesStr sub cs)"

fun findIndex :: "('a \<Rightarrow> bool) \<Rightarrow> 'a list \<Rightarrow> nat option" where
  "findIndex p [] = None"
| "findIndex p (x # xs) = (if p x then Some 0 else map_option Suc (findIndex p xs))"

text \<open>
  \<open>snippet.replace(new RegExp('(keyword)', 'gi'), '<strong>$1</strong>')\<close>: every
  occurrence of the keyword, whatever its case, from left to right, is put between
  the two tags.
\<close>

function highlight :: "string \<Rightarrow> string \<Rightarrow> string" where
  "highlight keyword [] =
     (case matchLiteral keyword [] of None \<Rightarrow> [] | Some m \<Rightarrow> ''<strong>'' @ m @ ''</strong>'')"
| "highlight keyword (c # cs) =
     (case matchLiteral keyword (c # cs) of
        None \<Rightarrow> c # highlight keyword cs
      | Some m \<Rightarrow>
          ''<strong>'' @ m @ ''</strong>'' @
          (if m = [] then c # highlight keyword cs
           else highlight keyword (drop (length m - 1) cs)))"
  by pat_completeness auto
termination
  by (relation "measure (\<lambda>(keyword, s). length s)") auto

text \<open>
  For every keyword, the first word that contains it and up to ten words on either
  side. The subtraction of natural numbers stops at 0, as \<open>Math.max(0, _)\<close> does,
  and \<open>words.slice(start, end)\<close> takes \<open>end - start\<close> words after dropping
  \<open>start\<close>.
\<close>

definition getContextAroundKeywords :: "string \<Rightarrow> string list \<Rightarrow> context_snippet list" where
  "getContextAroundKeywords txt keywords =
     (let contextWords = 10 in
      if txt = [] \<or> length keywords = 0 then []
      else (let words = split_ws txt in
            concat (map (\<lambda>keyword.
              (let keywordLower = toLowerCase keyword in
               case findIndex (\<lambda>word. includesStr keywordLower (toLowerCase word)) words of
                 None \<Rightarrow> []
               | Some keywordIndex \<Rightarrow>
                   (let start = keywordIndex - contextWords;
                        stop = min (length words) (keywordIndex + contextWords + 1);
                        snippet = join '' '' (take (stop - start) (drop start words));
                        highlightedSnippet = highlight keyword snippet
                    in [\<lparr> cs_keyword = keyword,
                           cs_snippet = highlightedSnippet,
                           cs_position =
                             showInt (mathRound (real keywordIndex / real (length words) * 100))
                             @ ''%'' \<rparr>]))) keywords)))"

text \<open>
  The loop over the batch, with its two accumulators \<open>riskPosts\<close> and
  \<open>processedTexts\<close>. A record without text, or with a text already in
  \<open>processedTexts\<close>, is passed over; a text enters \<open>processedTexts\<close> when it
  yields a finding.
\<close>

fun riskLoop :: "post_metric list \<Rightarrow> risk_post list \<Rightarrow> string set \<Rightarrow> risk_post list" where
  "riskLoop [] riskPosts processedTexts = riskPosts"
| "riskLoop (metric # rest) riskPosts processedTexts =
     (if pm_text metric = [] \<or> pm_text metric \<in> processedTexts
      then riskLoop rest riskPosts processedTexts
      else (let (severity, allMatches) = scanTiers (toLowerCase (pm_text metric)) in
            if severity \<noteq> SevNone
            then riskLoop rest
                   (riskPosts @ [\<lparr> rp_id = pm_id metric,
                                   rp_text = excerpt (pm_text metric),
                                   rp_timestamp = pm_timestamp metric,
                                   rp_matches = allMatches,
                                   rp_severity = severity,
                                   rp_context = getContextAroundKeywords (pm_text metric)
                                                  allMatches \<rparr>])
                   (insert (pm_text metric) processedTexts)
            else riskLoop rest riskPosts processedTexts))"

subsection \<open>Risk summary\<close>

definition severityOrder :: "severity \<Rightarrow> int" where
  "severityOrder s = (case s of SevHigh \<Rightarrow> 3 | SevMedium \<Rightarrow> 2 | SevLow \<Rightarrow> 1 | SevNone \<Rightarrow> 0)"

text \<open>The comparator of the example ranking: severity, number of matches, recency.\<close>

definition compareExamples :: "risk_post \<Rightarrow> risk_post \<Rightarrow> int" where
  "compareExamples a b =
     (let severityDiff = severityOrder (rp_severity b) - severityOrder (rp_severity a) in
      if severityDiff \<noteq> 0 then severityDiff
      else (let matchDiff = int (length (rp_matches b)) - int (length (rp_matches a)) in
            if matchDiff \<noteq> 0 then matchDiff
            else rp_timestamp b - rp_timestamp a))"

text \<open>
  \<open>Array.prototype.sort\<close> is stable: elements that compare equal keep their order.
\<close>

fun insertBy :: "('a \<Rightarrow> 'a \<Rightarrow> int) \<Rightarrow> 'a \<Rightarrow> 'a list \<Rightarrow> 'a list" where
  "insertBy cmp x [] = [x]"
| "insertBy cmp x (y # ys) = (if cmp x y \<le> 0 then x # y # ys else y # insertBy cmp x ys)"

definition sortBy :: "('a \<Rightarrow> 'a \<Rightarrow> int) \<Rightarrow> 'a list \<Rightarrow> 'a list" where
  "sortBy cmp xs = foldr (insertBy cmp) xs []"

record risk_summary =
  rs_summary :: string
  rs_assessment :: string
  rs_recommendations :: "string list"
  rs_riskScore :: nat
  rs_riskLevel :: risk_level

definition generateRiskSummary :: "risk_level \<Rightarrow> nat \<Rightarrow> nat \<Rightarrow> nat \<Rightarrow> nat \<Rightarrow> risk_summary" where
  "generateRiskSummary riskLevel highRiskCount mediumRiskCount lowRiskCount totalScore =
     (let summaries =
            (if highRiskCount > 0
             then [showNat highRiskCount @ '' high-risk indicators found''] else []) @
            (if mediumRiskCount > 0
             then [showNat mediumRiskCount @ '' medium-risk indicators found''] else []) @
            (if lowRiskCount > 0
             then [showNat lowRiskCount @ '' low-risk indicators found''] else []);
          recommendations =
            (if highRiskCount > 0
             then [''Immediate attention recommended. Consider reaching out to a mental health professional.'']
             else []) @
            (if mediumRiskCount > 0 \<and> riskLevel = LevelMediumHigh
             then [''Multiple concerning indicators detected. Monitoring is advised.'']
             else []) @
            (if lowRiskCount > 0 \<and> riskLevel = LevelLowMedium
             then [''Several low-risk indicators detected. Consider monitoring for changes.'']
             else []);
          assessment =
            (case riskLevel of
               LevelHigh \<Rightarrow> ''High risk level detected. Immediate attention is recommended.''
             | LevelMediumHigh \<Rightarrow>
                 ''Moderate to high risk level detected. Close monitoring is advised.''
             | LevelMedium \<Rightarrow> ''Moderate risk level detected. Consider monitoring for changes.''
             | LevelLowMedium \<Rightarrow> ''Low to moderate risk level detected.''
             | LevelLow \<Rightarrow> ''Low risk level detected. No immediate action needed.''
             | LevelNone \<Rightarrow> ''No significant risk indicators detected.'')
      in \<lparr> rs_summary = (if length summaries > 0 then join '', '' summaries
                           else ''No risk indicators found''),
           rs_assessment = assessment,
           rs_recommendations = (if length recommendations > 0 then recommendations
                                 else [''No specific recommendations at this time.'']),
           rs_riskScore = totalScore,
           rs_riskLevel = riskLevel \<rparr>)"

text \<open>
  The report. On an empty batch the function returns early, with an object that has
  neither a \<open>riskScore\<close> nor a \<open>summary\<close>.
\<close>

record risk_report =
  total :: nat
  highRisk :: nat
  mediumRisk :: nat
  lowRisk :: nat
  riskLevel :: risk_level
  riskScore :: "nat option"
  examples :: "risk_post list"
  summary :: "risk_summary option"

definition detectRiskFactors :: "post_metric list \<Rightarrow> risk_report" where
  "detectRiskFactors metrics =
     (if length metrics = 0
      then \<lparr> total = 0, highRisk = 0, mediumRisk = 0, lowRisk = 0,
             riskLevel = LevelNone, riskScore = None, examples = [], summary = None \<rparr>
      else (let riskPosts = riskLoop metrics [] {};
                highRisk = filter (\<lambda>p. rp_severity p = SevHigh) riskPosts;
                mediumRisk = filter (\<lambda>p. rp_severity p = SevMedium) riskPosts;
                lowRisk = filter (\<lambda>p. rp_severity p = SevLow) riskPosts;
                riskLevel =
                  (if length highRisk > 0 then LevelHigh
                   else if length mediumRisk \<ge> 3 then LevelMediumHigh
                   else if length mediumRisk > 0 then LevelMedium
                   else if length lowRisk \<ge> 5 then LevelLowMedium
                   else if length lowRisk > 0 then LevelLow
                   else LevelNone);
                sortedExamples = take 5 (sortBy compareExamples riskPosts);
                riskScores = [length highRisk * 10, length mediumRisk * 3, length lowRisk * 1];
                totalRiskScore = min (foldl (\<lambda>sum score. sum + score) 0 riskScores) 100
            in \<lparr> total = length riskPosts,
                 highRisk = length highRisk,
                 mediumRisk = length mediumRisk,
                 lowRisk = length lowRisk,
                 riskLevel = riskLevel,
                 riskScore = Some totalRiskScore,
                 examples = sortedExamples,
                 summary = Some (generateRiskSummary riskLevel (length highRisk)
                                   (length mediumRisk) (length lowRisk) totalRiskScore) \<rparr>))"

section \<open>Dates and cache keys\<close>

text \<open>
  A date is its time value, the milliseconds since the epoch, and the host's time zone
  is taken to be UTC. \<open>civilFromDays\<close> turns a day number into year, month (1 to 12)
  and day of the month in the proleptic Gregorian calendar.
\<close>

definition padZero :: "nat \<Rightarrow> nat \<Rightarrow> string" where
  "padZero width n = (let d = showNat n in replicate (width - length d) CHR ''0'' @ d)"

definition civilFromDays :: "int \<Rightarrow> int \<times> nat \<times> nat" where
  "civilFromDays days =
     (let z = days + 719468;
          era = z div 146097;
          doe = z - era * 146097;
          yoe = (doe - doe div 1460 + doe div 36524 - doe div 146096) div 365;
          y = yoe + era * 400;
          doy = doe - (365 * yoe + yoe div 4 - yoe div 100);
          mp = (5 * doy + 2) div 153;
          d = doy - (153 * mp + 2) div 5 + 1;
          m = (if mp < 10 then mp + 3 else mp - 9)
      in (if m \<le> 2 then y + 1 else y, nat m, nat d))"

definition msPerDay :: int where
  "msPerDay = 1000 * 60 * 60 * 24"

definition timeOfDay :: "int \<Rightarrow> string" where
  "timeOfDay t =
     (let ms = nat (t mod msPerDay) in
      padZero 2 (ms div 3600000) @ '':'' @ padZero 2 (ms div 60000 mod 60) @ '':'' @
      padZero 2 (ms div 1000 mod 60))"

definition toISOString :: "int \<Rightarrow> string" where
  "toISOString t =
     (let (y, m, d) = civilFromDays (t div msPerDay);
          year = (if 0 \<le> y \<and> y \<le> 9999 then padZero 4 (nat y)
                  else (if y < 0 then ''-'' else ''+'') @ padZero 6 (nat \<bar>y\<bar>))
      in year @ ''-'' @ padZero 2 m @ ''-'' @ padZero 2 d @ ''T'' @ timeOfDay t @ ''.'' @
         padZero 3 (nat (t mod 1000)) @ ''Z'')"

text \<open>
  \<open>Date.prototype.toDateString\<close>, and the string a date turns into inside a
  template literal (\<open>Date.prototype.toString\<close>), which has no milliseconds.
\<close>

definition toDateString :: "int \<Rightarrow> string" where
  "toDateString t =
     (let days = t div msPerDay;
          (y, m, d) = civilFromDays days;
          weekDay = [''Sun'', ''Mon'', ''Tue'', ''Wed'', ''Thu'', ''Fri'', ''Sat'']
                      ! nat ((days + 4) mod 7);
          month = [''Jan'', ''Feb'', ''Mar'', ''Apr'', ''May'', ''Jun'',
                   ''Jul'', ''Aug'', ''Sep'', ''Oct'', ''Nov'', ''Dec''] ! (m - 1)
      in weekDay @ '' '' @ month @ '' '' @ padZero 2 d @ '' '' @
         (if y < 0 then ''-'' else []) @ padZero 4 (nat \<bar>y\<bar>))"

definition dateToString :: "int \<Rightarrow> string" where
  "dateToString t =
     toDateString t @ '' '' @ timeOfDay t @ '' GMT+0000 (Coordinated Universal Time)''"

datatype time_range = Range7d | Range14d | Range30d | Range60d | Range90d | RangeCustom

definition timeRangeString :: "time_range \<Rightarrow> string" where
  "timeRangeString r = (case r of Range7d \<Rightarrow> ''7d'' | Range14d \<Rightarrow> ''14d''
     | Range30d \<Rightarrow> ''30d'' | Range60d \<Rightarrow> ''60d'' | Range90d \<Rightarrow> ''90d''
     | RangeCustom \<Rightarrow> ''custom'')"

text \<open>\<open>parseInt(timeRange)\<close>; it is \<open>NaN\<close> on \<open>'custom'\<close>, which is \<open>None\<close> here.\<close>

definition parseIntRange :: "time_range \<Rightarrow> nat option" where
  "parseIntRange r = (case r of Range7d \<Rightarrow> Some 7 | Range14d \<Rightarrow> Some 14
     | Range30d \<Rightarrow> Some 30 | Range60d \<Rightarrow> Some 60 | Range90d \<Rightarrow> Some 90
     | RangeCustom \<Rightarrow> None)"

record analysis_options =
  opt_timeRange :: "time_range option"
  opt_startDate :: "int option"
  opt_endDate :: "int option"

text \<open>
  \<open>JSON.stringify\<close> of an object whose property values are strings or undefined: an
  undefined property is left out. None of the strings that occur needs an escape.
\<close>

definition jsonStringify :: "(string \<times> string option) list \<Rightarrow> string" where
  "jsonStringify props =
     ''{'' @ join '','' (concat (map (\<lambda>(name, v). case v of None \<Rightarrow> []
         | Some x \<Rightarrow> [[CHR 0x22] @ name @ [CHR 0x22] @ '':'' @ [CHR 0x22] @ x @ [CHR 0x22]]) props))
     @ ''}''"

definition generateCacheKey :: "post_metric list \<Rightarrow> analysis_options \<Rightarrow> string" where
  "generateCacheKey metrics options =
     (let metricsKey = join ''|'' (map (\<lambda>m. pm_id m @ '':'' @ dateToString (pm_timestamp m)) metrics);
          optionsKey = jsonStringify
            [(''timeRange'', map_option timeRangeString (opt_timeRange options)),
             (''startDate'', map_option toISOString (opt_startDate options)),
             (''endDate'', map_option toISOString (opt_endDate options))]
      in metricsKey @ ''|'' @ optionsKey)"

section \<open>Aggregation and report assembly\<close>

text \<open>
  What can be thrown. \<open>AnalysisFailed\<close> is the error that \<open>analyzeMetrics\<close> throws
  around the one it caught; \<open>TypeError\<close> is the runtime's, for a property read on
  \<open>undefined\<close>.
\<close>

datatype error =
    MetricsMustBeArray
  | NoMetricsProvided
  | InvalidMetric nat
  | InvalidMetricsData nat
  | TypeError
  | AnalysisFailed error

text \<open>
  The argument \<open>metrics\<close> of the public entry point is any value: something that is
  not an array, or an array whose elements are objects or not.
\<close>

datatype record_arg = NonObject | Obj post_metric

datatype metrics_arg = NonArray | Arr "record_arg list"

text \<open>
  The \<open>forEach\<close> of \<open>validateMetrics\<close>, from the given index on. The model hands back
  the records it has checked, which the source goes on to read from the same array.
\<close>

fun validateEach :: "nat \<Rightarrow> record_arg list \<Rightarrow> error + post_metric list" where
  "validateEach index [] = Inr []"
| "validateEach index (NonObject # rest) = Inl (InvalidMetric index)"
| "validateEach index (Obj metric # rest) =
     (if pm_metrics metric = None then Inl (InvalidMetricsData index)
      else (case validateEach (Suc index) rest of
              Inl e \<Rightarrow> Inl e
            | Inr ms \<Rightarrow> Inr (metric # ms)))"

definition validateMetrics :: "metrics_arg \<Rightarrow> error + post_metric list" where
  "validateMetrics metrics =
     (case metrics of
        NonArray \<Rightarrow> Inl MetricsMustBeArray
      | Arr elems \<Rightarrow>
          if length elems = 0 then Inl NoMetricsProvided
          else validateEach 0 elems)"

definition sumMetric :: "metrics_obj list \<Rightarrow> (metrics_obj \<Rightarrow> real option) \<Rightarrow> real" where
  "sumMetric metrics field = foldl (\<lambda>sum m. sum + withDefault 0 (field m)) 0 metrics"

record averages =
  avgLikes :: real
  avgComments :: real
  avgShares :: real
  avgSaves :: real
  avgWatchTime :: real

definition calculateAverages :: "nat \<Rightarrow> real \<Rightarrow> real \<Rightarrow> real \<Rightarrow> real \<Rightarrow> real \<Rightarrow> averages" where
  "calculateAverages totalPosts totalLikes totalComments totalShares totalSaves totalWatchTime =
     \<lparr> avgLikes = (if totalPosts > 0 then totalLikes / real totalPosts else 0),
       avgComments = (if totalPosts > 0 then totalComments / real totalPosts else 0),
       avgShares = (if totalPosts > 0 then totalShares / real totalPosts else 0),
       avgSaves = (if totalPosts > 0 then totalSaves / real totalPosts else 0),
       avgWatchTime = (if totalPosts > 0 then totalWatchTime / real totalPosts else 0) \<rparr>"

record sentiment_metrics =
  avgSentiment :: real
  positive :: real
  negative :: real
  neutral :: real

definition calculateSentimentMetrics :: "metrics_obj list \<Rightarrow> sentiment_metrics" where
  "calculateSentimentMetrics metrics =
     (let sentimentScores =
            map (\<lambda>m. case m_sentiment m of None \<Rightarrow> 0 | Some s \<Rightarrow> withDefault 0 (s_score s)) metrics
      in if length sentimentScores = 0
         then \<lparr> avgSentiment = 0, positive = 0, negative = 0, neutral = 100 \<rparr>
         else (let avgSentiment = foldl (\<lambda>a b. a + b) 0 sentimentScores
                                    / real (length sentimentScores);
                   positive = real (length (filter (\<lambda>s. s > 0.1) sentimentScores))
                                / real (length sentimentScores) * 100;
                   negative = real (length (filter (\<lambda>s. s < - 0.1) sentimentScores))
                                / real (length sentimentScores) * 100
               in \<lparr> avgSentiment = avgSentiment, positive = positive, negative = negative,
                    neutral = 100 - positive - negative \<rparr>))"

definition calculatePostFrequency ::
  "nat \<Rightarrow> time_range \<Rightarrow> int option \<Rightarrow> int option \<Rightarrow> real" where
  "calculatePostFrequency n timeRange startDate endDate =
     (case (timeRange, startDate, endDate) of
        (RangeCustom, Some s, Some e) \<Rightarrow>
          (let days = real_of_int (e - s) / real_of_int msPerDay in real n / max 1 days)
      | _ \<Rightarrow> real n / real (case parseIntRange timeRange of None \<Rightarrow> 30
                              | Some d \<Rightarrow> if d = 0 then 30 else d))"

definition calculateEngagementRate :: "real \<Rightarrow> real \<Rightarrow> real \<Rightarrow> nat \<Rightarrow> real" where
  "calculateEngagementRate likes comments shares totalPosts =
     (if totalPosts > 0 then (likes + comments + shares) / real totalPosts else 0)"

definition calculateEnergyLevel :: "real \<Rightarrow> real" where
  "calculateEnergyLevel interestScore = min 100 (max 0 (50 + (interestScore - 50) * 0.5))"

definition calculateSocialSupport :: "real \<Rightarrow> real" where
  "calculateSocialSupport comments = min 100 (max 0 (50 + (comments * 0.1)))"

subsection \<open>Platforms\<close>

text \<open>
  The accumulator of \<open>generatePlatformData\<close> is an object with one property for
  each provider, in the order in which the providers first occur (no provider name
  is an array index). \<open>upsert\<close> changes the property under a key, starting from the
  zero entry when the object has none.
\<close>

record platform_acc =
  pa_count :: nat
  pa_likes :: real
  pa_comments :: real
  pa_shares :: real
  pa_sentimentSum :: real

fun upsert :: "string \<Rightarrow> (platform_acc \<Rightarrow> platform_acc) \<Rightarrow> (string \<times> platform_acc) list
    \<Rightarrow> (string \<times> platform_acc) list" where
  "upsert key f [] =
     [(key, f \<lparr> pa_count = 0, pa_likes = 0, pa_comments = 0, pa_shares = 0,
                 pa_sentimentSum = 0 \<rparr>)]"
| "upsert key f ((k, v) # rest) =
     (if k = key then (k, f v) # rest else (k, v) # upsert key f rest)"

record platform_engagement =
  pe_likes :: real
  pe_comments :: real
  pe_shares :: real
  pe_avgLikes :: real
  pe_avgComments :: real
  pe_avgShares :: real

record platform_data =
  pd_platform :: string
  pd_postCount :: nat
  pd_engagement :: platform_engagement
  pd_sentiment :: real

text \<open>A record goes with its \<open>metrics\<close> object.\<close>

definition generatePlatformData :: "(post_metric \<times> metrics_obj) list \<Rightarrow> platform_data list" where
  "generatePlatformData metrics =
     (let byPlatform =
            foldl (\<lambda>acc (metric, mo).
                     upsert (pm_provider metric)
                       (\<lambda>p. \<lparr> pa_count = pa_count p + 1,
                               pa_likes = pa_likes p + withDefault 0 (m_likes mo),
                               pa_comments = pa_comments p + withDefault 0 (m_comments mo),
                               pa_shares = pa_shares p + withDefault 0 (m_shares mo),
                               pa_sentimentSum = pa_sentimentSum p +
                                 (case m_sentiment mo of None \<Rightarrow> 0
                                  | Some s \<Rightarrow> withDefault 0 (s_score s)) \<rparr>) acc)
                  [] metrics
      in map (\<lambda>(name, data).
                \<lparr> pd_platform = name,
                  pd_postCount = pa_count data,
                  pd_engagement =
                    \<lparr> pe_likes = pa_likes data,
                      pe_comments = pa_comments data,
                      pe_shares = pa_shares data,
                      pe_avgLikes = pa_likes data / real (pa_count data),
                      pe_avgComments = pa_comments data / real (pa_count data),
                      pe_avgShares = pa_shares data / real (pa_count data) \<rparr>,
                  pd_sentiment = pa_sentimentSum data / real (pa_count data) \<rparr>) byPlatform)"

subsection \<open>Trends\<close>

record trend_engagement =
  te_likes :: real
  te_comments :: real
  te_shares :: real

record daily_trend =
  dt_date :: string
  dt_postCount :: nat
  dt_sentiment :: real
  dt_engagement :: trend_engagement

text \<open>
  One entry for each day from the start date on that has a post; day \<open>i\<close> is the
  start date moved on by \<open>i\<close> days, and a post falls on it when the two dates
  print the same day.
\<close>

definition generateTrends ::
  "(post_metric \<times> metrics_obj) list \<Rightarrow> int option \<Rightarrow> int option \<Rightarrow> daily_trend list" where
  "generateTrends metrics startDate endDate =
     (case (startDate, endDate) of
        (Some s, Some e) \<Rightarrow>
          (let days = \<lceil>real_of_int (e - s) / real_of_int msPerDay\<rceil> in
           concat (map (\<lambda>i.
             (let currentDate = s + int i * msPerDay;
                  dayMetrics = filter (\<lambda>(m, mo). toDateString (pm_timestamp m)
                                                   = toDateString currentDate) metrics
              in if length dayMetrics > 0
                 then [\<lparr> dt_date = takeWhile (\<lambda>c. c \<noteq> CHR ''T'') (toISOString currentDate),
                         dt_postCount = length dayMetrics,
                         dt_sentiment =
                           foldl (\<lambda>sum (m, mo). sum + (case m_sentiment mo of None \<Rightarrow> 0
                                      | Some s \<Rightarrow> withDefault 0 (s_score s))) 0 dayMetrics
                           / real (length dayMetrics),
                         dt_engagement =
                           \<lparr> te_likes = foldl (\<lambda>sum (m, mo). sum + withDefault 0 (m_likes mo))
                                               0 dayMetrics,
                             te_comments = foldl (\<lambda>sum (m, mo). sum + withDefault 0 (m_comments mo))
                                               0 dayMetrics,
                             te_shares = foldl (\<lambda>sum (m, mo). sum + withDefault 0 (m_shares mo))
                                               0 dayMetrics \<rparr> \<rparr>]
                 else [])) [0 ..< nat days]))
      | _ \<Rightarrow> [])"

subsection \<open>Summary\<close>

definition getInterestCategory :: "real \<Rightarrow> string" where
  "getInterestCategory score =
     (if score \<ge> 75 then ''high'' else if score \<ge> 40 then ''moderate'' else ''low'')"

definition getStressCategory :: "real \<Rightarrow> string" where
  "getStressCategory score =
     (if score \<ge> 70 then ''high'' else if score \<ge> 40 then ''moderate'' else ''low'')"

record analysis_summary =
  sm_overall :: string
  sm_keyFindings :: "string list"
  sm_recommendations :: "string list"
  sm_positiveAspects :: "string list"
  sm_areasOfConcern :: "string list"

text \<open>
  The four lists grow in the order of the source; each step hands on the lists it
  does not touch.
\<close>

definition generateSummary ::
  "real \<Rightarrow> real \<Rightarrow> risk_report \<Rightarrow> platform_data list \<Rightarrow> daily_trend list \<Rightarrow> analysis_summary" where
  "generateSummary interestScore stressScore riskFactors platformData dailyTrends =
     (let interestCategory = getInterestCategory interestScore;
          stressCategory = getStressCategory stressScore;
          (keyFindings, recommendations, positiveAspects) =
            (if interestCategory = ''high''
             then ([''Your engagement level is high, indicating strong interest in your social media content.''],
                   [], [''High engagement with your content''])
             else if interestCategory = ''moderate''
             then ([''Your engagement level is moderate. There is room for increased interaction.''],
                   [], [])
             else ([''Your engagement level is lower than average. Consider experimenting with different types of content.''],
                   [''Try posting at different times or using different content formats to increase engagement.''],
                   []));
          (keyFindings, recommendations, positiveAspects, areasOfConcern) =
            (if stressCategory = ''high''
             then (keyFindings @ [''Your stress indicators are elevated. Consider taking breaks from social media.''],
                   recommendations @ [''Consider implementing digital wellness practices like screen time limits or mindfulness exercises.''],
                   positiveAspects, [''Elevated stress levels''])
             else if stressCategory = ''moderate''
             then (keyFindings @ [''Your stress levels appear to be within a moderate range.''],
                   recommendations @ [''Be mindful of your social media usage to maintain healthy stress levels.''],
                   positiveAspects, [])
             else (keyFindings @ [''Your stress levels appear to be well-managed.''],
                   recommendations, positiveAspects @ [''Healthy stress management''], []));
          (keyFindings, recommendations, areasOfConcern) =
            (if highRisk riskFactors > 0
             then (keyFindings @ [''We've detected '' @ showNat (highRisk riskFactors) @
                                  '' posts with concerning content that may indicate distress.''],
                   recommendations @ [''Consider reaching out to a mental health professional for support.''],
                   areasOfConcern @ [''Concerning content in posts''])
             else if mediumRisk riskFactors > 0
             then (keyFindings @ [''We've detected '' @ showNat (mediumRisk riskFactors) @
                                  '' posts that may indicate some emotional distress.''],
                   recommendations @ [''Be mindful of your emotional well-being and consider talking to someone if you're feeling overwhelmed.''],
                   areasOfConcern)
             else (keyFindings, recommendations, areasOfConcern));
          (keyFindings, recommendations) =
            (case platformData of
               [] \<Rightarrow> (keyFindings, recommendations)
             | first # _ \<Rightarrow>
                 (let topPlatform =
                        foldl (\<lambda>best p. if pe_avgLikes (pd_engagement p)
                                              > pe_avgLikes (pd_engagement best)
                                           then p else best) first platformData
                  in (keyFindings @ [''Your highest engagement is on '' @ pd_platform topPlatform @
                        '' with an average of '' @
                        showInt (mathRound (pe_avgLikes (pd_engagement topPlatform))) @
                        '' likes per post.''],
                      if length platformData > 1
                      then recommendations @ [''Consider focusing on the content strategies that work well on '' @
                             pd_platform topPlatform @ '' for other platforms.'']
                      else recommendations)));
          (keyFindings, recommendations) =
            (if length dailyTrends > 1
             then (let daysWithPosts = length dailyTrends;
                       totalPosts = foldl (\<lambda>sum day. sum + dt_postCount day) 0 dailyTrends;
                       avgPostsPerDay = real totalPosts / real daysWithPosts
                   in if avgPostsPerDay > 5
                      then (keyFindings @ [''You're posting an average of '' @
                              showInt (mathRound avgPostsPerDay) @
                              '' times per day, which is quite frequent.''],
                            recommendations @ [''Consider quality over quantity - fewer, more meaningful posts often perform better.''])
                      else (keyFindings, recommendations))
             else (keyFindings, recommendations))
      in \<lparr> sm_overall = ''Your social media engagement is '' @ interestCategory @
                        '', and your stress levels appear '' @ stressCategory @ ''.'',
           sm_keyFindings = keyFindings,
           sm_recommendations =
             (if length recommendations > 0 then recommendations
              else [''Your social media habits appear balanced. Keep up the good work!'']),
           sm_positiveAspects =
             (if length positiveAspects > 0 then positiveAspects
              else [''No significant areas of concern detected'']),
           sm_areasOfConcern =
             (if length areasOfConcern > 0 then areasOfConcern
              else [''No significant areas of concern detected'']) \<rparr>)"

subsection \<open>The assembled result\<close>

record engagement =
  totalPosts :: nat
  totalLikes :: real
  totalComments :: real
  totalShares :: real
  totalSaves :: real
  totalWatchTime :: real
  eng_averages :: averages
  engagementRate :: real

record sentiment_report =
  sr_metrics :: sentiment_metrics
  comparative :: real

record mental_health =
  interestScore :: real
  stressScore :: real
  moodScore :: real
  energyLevel :: real
  socialSupport :: real

text \<open>The weekly trends are always the empty array.\<close>

record trends =
  daily :: "daily_trend list"
  weekly :: "daily_trend list"

record analysis_result =
  ar_engagement :: engagement
  ar_sentiment :: sentiment_report
  ar_mentalHealth :: mental_health
  ar_riskFactors :: risk_report
  ar_byPlatform :: "platform_data list"
  ar_trends :: trends
  ar_summary :: analysis_summary

text \<open>
  \<open>processMetrics\<close> reads \<open>m.metrics[field]\<close> of every record first, which throws on
  a record without \<open>metrics\<close>. The interest score is computed from the object that
  \<open>calculateAverages\<close> returns, whose properties are \<open>avgLikes\<close> to
  \<open>avgWatchTime\<close>: it has none of the properties that \<open>calculateInterestScore\<close>
  destructures, so each of them takes its default. The stress score is computed
  without the post texts.
\<close>

definition processMetrics :: "post_metric list \<Rightarrow> analysis_options \<Rightarrow> error + analysis_result" where
  "processMetrics metrics options =
     (case those (map pm_metrics metrics) of
        None \<Rightarrow> Inl TypeError
      | Some ms \<Rightarrow>
         (let timeRange = withDefault Range30d (opt_timeRange options);
              totalLikes = sumMetric ms m_likes;
              totalComments = sumMetric ms m_comments;
              totalShares = sumMetric ms m_shares;
              totalSaves = sumMetric ms m_saves;
              totalWatchTime = sumMetric ms m_watchTimeSeconds;
              totalPosts = length metrics;
              averages = calculateAverages totalPosts totalLikes totalComments totalShares
                           totalSaves totalWatchTime;
              sentimentMetrics = calculateSentimentMetrics ms;
              interestScore = calculateInterestScore None None None None None;
              stressScore = calculateStressScore
                              (Some (avgSentiment sentimentMetrics))
                              (Some (negative sentimentMetrics))
                              (Some (calculatePostFrequency (length metrics) timeRange
                                       (opt_startDate options) (opt_endDate options)))
                              None;
              platformData = generatePlatformData (zip metrics ms);
              dailyTrends = generateTrends (zip metrics ms) (opt_startDate options)
                              (opt_endDate options);
              riskFactors = detectRiskFactors metrics;
              summary = generateSummary interestScore stressScore riskFactors platformData
                          dailyTrends
          in Inr \<lparr> ar_engagement =
                      \<lparr> totalPosts = totalPosts, totalLikes = totalLikes,
                        totalComments = totalComments, totalShares = totalShares,
                        totalSaves = totalSaves, totalWatchTime = totalWatchTime,
                        eng_averages = averages,
                        engagementRate = calculateEngagementRate totalLikes totalComments
                                           totalShares totalPosts \<rparr>,
                    ar_sentiment =
                      \<lparr> sr_metrics = sentimentMetrics,
                        comparative = avgSentiment sentimentMetrics * 5 \<rparr>,
                    ar_mentalHealth =
                      \<lparr> interestScore = interestScore,
                        stressScore = stressScore,
                        moodScore = 50 + (avgSentiment sentimentMetrics * 25),
                        energyLevel = calculateEnergyLevel interestScore,
                        socialSupport = calculateSocialSupport totalComments \<rparr>,
                    ar_riskFactors = riskFactors,
                    ar_byPlatform = platformData,
                    ar_trends = \<lparr> daily = dailyTrends, weekly = [] \<rparr>,
                    ar_summary = summary \<rparr>))"

section \<open>Result cache\<close>

record cache_entry =
  ce_data :: analysis_result
  ce_timestamp :: int

type_synonym cache = "string \<rightharpoonup> cache_entry"

definition CACHE_TTL :: int where
  "CACHE_TTL = 5 * 60 * 1000"

text \<open>The periodic sweep, run at time \<open>now\<close>.\<close>

definition cleanupCache :: "int \<Rightarrow> cache \<Rightarrow> cache" where
  "cleanupCache now analysisCache =
     (\<lambda>key. case analysisCache key of
               None \<Rightarrow> None
             | Some entry \<Rightarrow> if now - ce_timestamp entry > CACHE_TTL then None else Some entry)"

text \<open>
  What \<open>analyzeMetrics\<close> resolves to: the analysis and the flag \<open>_cached\<close>. The
  elapsed time \<open>_processingTime\<close> is a reading of the clock and is left out.
\<close>

record analysis_output =
  out_result :: analysis_result
  out_cached :: bool

text \<open>
  \<open>analyzeMetrics\<close> in the state of the module's cache, with the reading \<open>now\<close> of
  \<open>Date.now()\<close>. Every error caught is thrown again as \<open>AnalysisFailed\<close>.
\<close>

definition analyzeMetrics ::
  "cache \<Rightarrow> int \<Rightarrow> metrics_arg \<Rightarrow> analysis_options
     \<Rightarrow> (error + analysis_output) \<times> cache" where
  "analyzeMetrics analysisCache now metrics options =
     (case validateMetrics metrics of
        Inl e \<Rightarrow> (Inl (AnalysisFailed e), analysisCache)
      | Inr ms \<Rightarrow>
          (let cacheKey = generateCacheKey ms options in
           case analysisCache cacheKey of
             Some cachedResult \<Rightarrow>
               (Inr \<lparr> out_result = ce_data cachedResult, out_cached = True \<rparr>, analysisCache)
           | None \<Rightarrow>
               (case processMetrics ms options of
                  Inl e \<Rightarrow> (Inl (AnalysisFailed e), analysisCache)
                | Inr result \<Rightarrow>
                    (Inr \<lparr> out_result = result, out_cached = False \<rparr>,
                     analysisCache(cacheKey \<mapsto> \<lparr> ce_data = result, ce_timestamp = now \<rparr>)))))"

section \<open>Auxiliary notions and sample inputs\<close>

text \<open>
  The low five bits of a code unit stand for a number from 1 to 26: the place of a
  letter in the alphabet.
\<close>

definition lowFive :: "bool \<Rightarrow> bool \<Rightarrow> bool \<Rightarrow> bool \<Rightarrow> bool \<Rightarrow> bool" where
  "lowFive b0 b1 b2 b3 b4 =
     ((b0 \<or> b1 \<or> b2 \<or> b3 \<or> b4) \<and> \<not> (b4 \<and> b3 \<and> (b2 \<or> (b1 \<and> b0))))"

text \<open>
  A record yields nothing in the loop when it has no text, when its text is already
  in \<open>processedTexts\<close>, or when no tier matches its text.
\<close>

definition yieldsNothing :: "string set \<Rightarrow> post_metric \<Rightarrow> bool" where
  "yieldsNothing P b \<longleftrightarrow>
     pm_text b = [] \<or> pm_text b \<in> P \<or> fst (scanTiers (toLowerCase (pm_text b))) = SevNone"

text \<open>A post with a high-tier and a low-tier keyword.\<close>

definition post1 :: post_metric where
  "post1 = \<lparr> pm_id = ''p1'', pm_provider = ''twitter'', pm_timestamp = 1700000000000,
     pm_text = ''Feeling Suicidal and so lonely'', pm_metrics = None \<rparr>"

text \<open>Two posts with the same text, which has two medium-tier keywords.\<close>

definition dupA :: post_metric where
  "dupA = \<lparr> pm_id = ''a'', pm_provider = ''manual'', pm_timestamp = 1700000000000,
     pm_text = ''I feel hopeless and want to give up'', pm_metrics = None \<rparr>"

definition dupB :: post_metric where
  "dupB = \<lparr> pm_id = ''b'', pm_provider = ''manual'', pm_timestamp = 1700000360000,
     pm_text = ''I feel hopeless and want to give up'', pm_metrics = None \<rparr>"

text \<open>A post of 201 code units that starts with a high-tier keyword.\<close>

definition longPost :: post_metric where
  "longPost = \<lparr> pm_id = ''long'', pm_provider = ''manual'', pm_timestamp = 1700000000000,
     pm_text = ''suicide '' @ replicate 193 CHR ''x'', pm_metrics = None \<rparr>"

text \<open>
  Two well-formed records, and two others that have the same \<open>_id\<close> and timestamp as
  these but another text and other engagement numbers.
\<close>

definition recA :: post_metric where
  "recA = \<lparr> pm_id = ''r1'', pm_provider = ''instagram'', pm_timestamp = 1700000000000,
     pm_text = ''I am so happy today'',
     pm_metrics = Some \<lparr> m_likes = Some 200, m_comments = Some 20, m_shares = Some 10,
       m_saves = Some 20, m_watchTimeSeconds = Some 300,
       m_sentiment = Some \<lparr> s_score = Some 0.5 \<rparr> \<rparr> \<rparr>"




definition options30 :: analysis_options where
  "options30 = \<lparr> opt_timeRange = Some Range30d, opt_startDate = None, opt_endDate = None \<rparr>"


section \<open>Character classes, bit by bit\<close>

text \<open>
  The classes of code units are defined by ranges of the character code. For
  evaluation each is restated on the eight bits of the code unit, lowest bit first.
\<close>

lemma isSpace_bits [code]:
  "isSpace (Char b0 b1 b2 b3 b4 b5 b6 b7) =
     ((\<not> b7 \<and> \<not> b6 \<and> \<not> b5 \<and> \<not> b4 \<and> b3 \<and> ((\<not> b2 \<and> (b0 \<or> b1)) \<or> (b2 \<and> \<not> b1)))
      \<or> (\<not> b6 \<and> b5 \<and> \<not> b4 \<and> \<not> b3 \<and> \<not> b2 \<and> \<not> b1 \<and> \<not> b0))"
  by (cases b0; cases b1; cases b2; cases b3; cases b4; cases b5; cases b6; cases b7;
      simp add: isSpace_def charCode_def)

lemma isWordChar_bits [code]:
  "isWordChar (Char b0 b1 b2 b3 b4 b5 b6 b7) =
     (\<not> b7 \<and> (if b6 then lowFive b0 b1 b2 b3 b4 \<or> (\<not> b5 \<and> b0 \<and> b1 \<and> b2 \<and> b3 \<and> b4)
              else b5 \<and> b4 \<and> (\<not> b3 \<or> (\<not> b2 \<and> \<not> b1))))"
  by (cases b0; cases b1; cases b2; cases b3; cases b4; cases b5; cases b6; cases b7;
      simp add: isWordChar_def charCode_def lowFive_def)

lemma isUpper_bits [code]:
  "isUpper (Char b0 b1 b2 b3 b4 b5 b6 b7) =
     (b6 \<and> \<not> b5 \<and> (if b7 then \<not> (b0 \<and> b1 \<and> b2 \<and> b4) else lowFive b0 b1 b2 b3 b4))"
  by (cases b0; cases b1; cases b2; cases b3; cases b4; cases b5; cases b6; cases b7;
      simp add: isUpper_def charCode_def lowFive_def)

lemma hasUpperForm_bits [code]:
  "hasUpperForm (Char b0 b1 b2 b3 b4 b5 b6 b7) =
     (b6 \<and> b5 \<and> (if b7 then \<not> (b0 \<and> b1 \<and> b2 \<and> b4) else lowFive b0 b1 b2 b3 b4))"
  by (cases b0; cases b1; cases b2; cases b3; cases b4; cases b5; cases b6; cases b7;
      simp add: hasUpperForm_def charCode_def lowFive_def)

section \<open>Properties of the risk keyword detector\<close>

lemma matchPattern_Nil: "matchPattern kws [] = []"
  by (simp add: matchPattern_def matchAt_def wordBoundary_def)

lemma scanTiers_order:
  "scanTiers t =
     (if matchPattern RISK_KEYWORDS_high t \<noteq> []
      then (SevHigh, uniq (matchPattern RISK_KEYWORDS_high t))
      else if matchPattern RISK_KEYWORDS_medium t \<noteq> []
      then (SevMedium, uniq (matchPattern RISK_KEYWORDS_medium t))
      else if matchPattern RISK_KEYWORDS_low t \<noteq> []
      then (SevLow, uniq (matchPattern RISK_KEYWORDS_low t))
      else (SevNone, []))"
  by (simp add: scanTiers_def Let_def)

lemma riskLoop_acc: "riskLoop ms acc P = acc @ riskLoop ms [] P"
proof (induction ms arbitrary: acc P)
  case Nil
  then show ?case by simp
next
  case (Cons m ms)
  show ?case
    using Cons.IH[of "acc @ [x]" "insert (pm_text m) P" for x] Cons.IH[of "[x]" "insert (pm_text m) P" for x] Cons.IH[of acc P]
    by (auto simp: Let_def split: prod.splits)
qed

lemma riskLoop_skip:
  "yieldsNothing P b \<Longrightarrow> riskLoop (mid @ b # post) acc P = riskLoop (mid @ post) acc P"
proof (induction mid arbitrary: acc P)
  case Nil
  then show ?case by (auto simp: yieldsNothing_def Let_def split: prod.splits)
next
  case (Cons m mid)
  have grow: "yieldsNothing (insert t P) b" for t
    using Cons.prems by (auto simp: yieldsNothing_def)
  show ?case
    using Cons.IH[OF Cons.prems] Cons.IH[OF grow]
    by (auto simp: Let_def split: prod.splits)
qed

lemma riskLoop_duplicate:
  assumes "pm_text a = pm_text b"
  shows "riskLoop (pre @ a # mid @ b # post) acc P = riskLoop (pre @ a # mid @ post) acc P"
proof (induction pre arbitrary: acc P)
  case Nil
  have 1: "yieldsNothing P b" if "yieldsNothing P a" for P
    using that assms by (simp add: yieldsNothing_def)
  have 2: "yieldsNothing (insert (pm_text a) P) b"
    using assms by (simp add: yieldsNothing_def)
  show ?case
  proof (cases "yieldsNothing P a")
    case True
    then show ?thesis
      using riskLoop_skip[OF 1[OF True], of mid post acc]
      by (auto simp: yieldsNothing_def Let_def split: prod.splits)
  next
    case False
    then show ?thesis
      using riskLoop_skip[OF 2, of mid post]
      by (auto simp: yieldsNothing_def Let_def split: prod.splits)
  qed
next
  case (Cons m pre)
  then show ?case by (auto simp: Let_def split: prod.splits)
qed

lemma detect_duplicate:
  assumes "pm_text a = pm_text b"
  shows "detectRiskFactors (pre @ a # mid @ b # post) = detectRiskFactors (pre @ a # mid @ post)"
  by (simp add: detectRiskFactors_def riskLoop_duplicate[OF assms])


lemma filter_sev_riskLoop_insert:
  assumes "fst (scanTiers (toLowerCase t)) \<noteq> s"
  shows "filter (\<lambda>p. rp_severity p = s) (riskLoop post acc (insert t P)) =
         filter (\<lambda>p. rp_severity p = s) (riskLoop post acc P)"
proof (induction post arbitrary: acc P)
  case Nil
  then show ?case by simp
next
  case (Cons x post)
  show ?case
  proof (cases "pm_text x = t")
    case True
    show ?thesis
    proof (cases "t = [] \<or> t \<in> P")
      case True
      with \<open>pm_text x = t\<close> show ?thesis
        using Cons.IH[of acc P] by (auto simp: insert_absorb)
    next
      case False
      obtain sev ms where sc: "scanTiers (toLowerCase t) = (sev, ms)"
        by (cases "scanTiers (toLowerCase t)")
      with assms have ne: "sev \<noteq> s" by simp
      show ?thesis
      proof (cases "sev = SevNone")
        case True
        with False sc \<open>pm_text x = t\<close> show ?thesis
          using Cons.IH[of acc P] by simp
      next
        case False
        with \<open>\<not> (t = [] \<or> t \<in> P)\<close> sc \<open>pm_text x = t\<close> ne show ?thesis
          using riskLoop_acc[of post "acc @ [f]" "insert t P" for f]
                riskLoop_acc[of post acc "insert t P"]
          by simp
      qed
    qed
  next
    case False
    then have mem: "pm_text x \<in> insert t P \<longleftrightarrow> pm_text x \<in> P" by auto
    have comm: "insert (pm_text x) (insert t P) = insert t (insert (pm_text x) P)" by auto
    show ?thesis
      using Cons.IH[of acc P] Cons.IH[of "acc @ [f]" "insert (pm_text x) P" for f]
      by (auto simp: mem comm Let_def split: prod.splits simp del: insert_iff)
  qed
qed

lemma filter_sev_riskLoop_drop:
  assumes "fst (scanTiers (toLowerCase (pm_text m))) \<noteq> s"
  shows "filter (\<lambda>p. rp_severity p = s) (riskLoop (pre @ m # post) acc P) =
         filter (\<lambda>p. rp_severity p = s) (riskLoop (pre @ post) acc P)"
proof (induction pre arbitrary: acc P)
  case Nil
  obtain sev ms where sc: "scanTiers (toLowerCase (pm_text m)) = (sev, ms)"
    by (cases "scanTiers (toLowerCase (pm_text m))")
  with assms have ne: "sev \<noteq> s" by simp
  show ?case
  proof (cases "pm_text m = [] \<or> pm_text m \<in> P \<or> sev = SevNone")
    case True
    with sc show ?thesis by auto
  next
    case False
    define f where "f = \<lparr> rp_id = pm_id m, rp_text = excerpt (pm_text m),
      rp_timestamp = pm_timestamp m, rp_matches = ms, rp_severity = sev,
      rp_context = getContextAroundKeywords (pm_text m) ms \<rparr>"
    have "riskLoop (m # post) acc P = riskLoop post (acc @ [f]) (insert (pm_text m) P)"
      using False sc by (simp add: f_def)
    also have "\<dots> = (acc @ [f]) @ riskLoop post [] (insert (pm_text m) P)"
      by (rule riskLoop_acc)
    finally have "filter (\<lambda>p. rp_severity p = s) (riskLoop (m # post) acc P) =
        filter (\<lambda>p. rp_severity p = s) acc @
        filter (\<lambda>p. rp_severity p = s) (riskLoop post [] (insert (pm_text m) P))"
      using ne by (simp add: f_def)
    also have "\<dots> = filter (\<lambda>p. rp_severity p = s) acc @
        filter (\<lambda>p. rp_severity p = s) (riskLoop post [] P)"
      by (simp add: filter_sev_riskLoop_insert[OF assms])
    also have "\<dots> = filter (\<lambda>p. rp_severity p = s) (riskLoop post acc P)"
      by (subst (2) riskLoop_acc) simp
    finally show ?thesis by simp
  qed
next
  case (Cons x pre)
  then show ?case by (auto simp: Let_def split: prod.splits)
qed

lemma set_insertBy: "set (insertBy cmp x ys) = insert x (set ys)"
  by (induction ys) auto

lemma set_sortBy: "set (sortBy cmp xs) = set xs"
  by (induction xs) (auto simp: sortBy_def set_insertBy)

lemma riskLoop_origin:
  "p \<in> set (riskLoop ms acc P) \<Longrightarrow>
     p \<in> set acc \<or> (\<exists>m \<in> set ms. rp_text p = excerpt (pm_text m) \<and> rp_id p = pm_id m
        \<and> rp_timestamp p = pm_timestamp m
        \<and> (rp_severity p, rp_matches p) = scanTiers (toLowerCase (pm_text m))
        \<and> rp_severity p \<noteq> SevNone)"
proof (induction ms arbitrary: acc P)
  case Nil
  then show ?case by simp
next
  case (Cons m ms)
  show ?case
    using Cons.IH[of "acc @ [f]" "insert (pm_text m) P" for f] Cons.IH[of acc P] Cons.prems
    by (fastforce simp: Let_def split: prod.splits if_splits)
qed

lemma length_excerpt: "length (excerpt t) = (if length t > 200 then 203 else length t)"
  by (simp add: excerpt_def)

lemma detectRiskFactors_single:
  assumes "pm_text m \<noteq> []" and "scanTiers (toLowerCase (pm_text m)) = (sev, ms)"
    and "sev \<noteq> SevNone"
  shows "riskLoop [m] [] {} =
           [\<lparr> rp_id = pm_id m, rp_text = excerpt (pm_text m), rp_timestamp = pm_timestamp m,
              rp_matches = ms, rp_severity = sev,
              rp_context = getContextAroundKeywords (pm_text m) ms \<rparr>]"
    and "examples (detectRiskFactors [m]) = riskLoop [m] [] {}"
    and "total (detectRiskFactors [m]) = 1"
  using assms by (simp_all add: detectRiskFactors_def Let_def sortBy_def)

lemma detectRiskFactors_single_none:
  assumes "pm_text m = [] \<or> fst (scanTiers (toLowerCase (pm_text m))) = SevNone"
  shows "examples (detectRiskFactors [m]) = []" and "total (detectRiskFactors [m]) = 0"
  using assms by (auto simp: detectRiskFactors_def Let_def sortBy_def split: prod.splits)

text \<open>
  \<^bold>\<open>C2.\<close> The tiers are tried in the order high, medium, low, and the first tier with
  a match gives the severity and the matches. A record whose text has a high-tier
  match therefore yields, alone in a batch, exactly one finding, of severity high and
  with the high-tier matches only, and is counted as one high-risk and no low-risk
  finding; in any batch, leaving such a record out does not change the number of
  low-risk findings.
\<close>

theorem high_tier_wins:
  assumes "matchPattern RISK_KEYWORDS_high (toLowerCase (pm_text m)) \<noteq> []"
  shows "scanTiers t =
           (if matchPattern RISK_KEYWORDS_high t \<noteq> []
            then (SevHigh, uniq (matchPattern RISK_KEYWORDS_high t))
            else if matchPattern RISK_KEYWORDS_medium t \<noteq> []
            then (SevMedium, uniq (matchPattern RISK_KEYWORDS_medium t))
            else if matchPattern RISK_KEYWORDS_low t \<noteq> []
            then (SevLow, uniq (matchPattern RISK_KEYWORDS_low t))
            else (SevNone, []))
       \<and> examples (detectRiskFactors [m]) =
           [\<lparr> rp_id = pm_id m, rp_text = excerpt (pm_text m), rp_timestamp = pm_timestamp m,
              rp_matches = uniq (matchPattern RISK_KEYWORDS_high (toLowerCase (pm_text m))),
              rp_severity = SevHigh,
              rp_context = getContextAroundKeywords (pm_text m)
                (uniq (matchPattern RISK_KEYWORDS_high (toLowerCase (pm_text m)))) \<rparr>]
       \<and> total (detectRiskFactors [m]) = 1
       \<and> highRisk (detectRiskFactors [m]) = 1
       \<and> mediumRisk (detectRiskFactors [m]) = 0
       \<and> lowRisk (detectRiskFactors [m]) = 0
       \<and> lowRisk (detectRiskFactors (pre @ m # post)) = lowRisk (detectRiskFactors (pre @ post))"
proof -
  have ne: "pm_text m \<noteq> []"
    using assms by (auto simp: toLowerCase_def matchPattern_Nil)
  have sc: "scanTiers (toLowerCase (pm_text m)) =
      (SevHigh, uniq (matchPattern RISK_KEYWORDS_high (toLowerCase (pm_text m))))"
    using assms by (simp add: scanTiers_order)
  have loop: "riskLoop [m] [] {} =
     [\<lparr> rp_id = pm_id m, rp_text = excerpt (pm_text m), rp_timestamp = pm_timestamp m,
        rp_matches = uniq (matchPattern RISK_KEYWORDS_high (toLowerCase (pm_text m))),
        rp_severity = SevHigh,
        rp_context = getContextAroundKeywords (pm_text m)
          (uniq (matchPattern RISK_KEYWORDS_high (toLowerCase (pm_text m)))) \<rparr>]"
    using ne sc by simp
  have single: "examples (detectRiskFactors [m]) = riskLoop [m] [] {}"
    "total (detectRiskFactors [m]) = 1" "highRisk (detectRiskFactors [m]) = 1"
    "mediumRisk (detectRiskFactors [m]) = 0" "lowRisk (detectRiskFactors [m]) = 0"
    unfolding loop detectRiskFactors_def by (simp_all add: Let_def sortBy_def)
  have low: "fst (scanTiers (toLowerCase (pm_text m))) \<noteq> SevLow"
    using sc by simp
  have drop: "lowRisk (detectRiskFactors (pre @ m # post)) = lowRisk (detectRiskFactors (pre @ post))"
    using filter_sev_riskLoop_drop[OF low, of pre post "[]" "{}"]
    by (cases "pre @ post = []") (auto simp: detectRiskFactors_def Let_def)
  show ?thesis
    using single drop loop by (simp add: scanTiers_order)
qed

theorem high_tier_wins_witness:
  "matchPattern RISK_KEYWORDS_high (toLowerCase (pm_text post1)) \<noteq> []
   \<and> matchPattern RISK_KEYWORDS_low (toLowerCase (pm_text post1)) \<noteq> []
   \<and> map rp_severity (examples (detectRiskFactors [post1])) = [SevHigh]
   \<and> map rp_matches (examples (detectRiskFactors [post1])) = [[''suicidal'']]
   \<and> highRisk (detectRiskFactors [post1]) = 1
   \<and> lowRisk (detectRiskFactors [post1]) = 0"
proof -
  have h: "matchPattern RISK_KEYWORDS_high (toLowerCase (pm_text post1)) \<noteq> []"
    by code_simp
  have l: "matchPattern RISK_KEYWORDS_low (toLowerCase (pm_text post1)) \<noteq> []"
    by code_simp
  have u: "uniq (matchPattern RISK_KEYWORDS_high (toLowerCase (pm_text post1))) = [''suicidal'']"
    by code_simp
  show ?thesis
    using h l high_tier_wins[OF h, of "[]" "[]" "[]"] by (simp add: u)
qed

text \<open>
  \<^bold>\<open>C3.\<close> Of two records with the same text, the later one adds nothing: the report of
  a batch is the report of the batch without the later duplicate. A batch of two
  records with the same text has at most one finding; it has exactly one, made from
  the first record, when the text is not empty and some tier matches it, and none
  otherwise.
\<close>

theorem duplicate_text_one_finding:
  assumes "pm_text a = pm_text b"
  shows "detectRiskFactors (pre @ a # mid @ b # post) = detectRiskFactors (pre @ a # mid @ post)
       \<and> total (detectRiskFactors [a, b]) \<le> 1
       \<and> total (detectRiskFactors [a, b]) =
           (if pm_text a \<noteq> [] \<and> fst (scanTiers (toLowerCase (pm_text a))) \<noteq> SevNone
            then 1 else 0)
       \<and> map rp_id (examples (detectRiskFactors [a, b])) =
           (if pm_text a \<noteq> [] \<and> fst (scanTiers (toLowerCase (pm_text a))) \<noteq> SevNone
            then [pm_id a] else [])"
proof -
  have general: "detectRiskFactors (pre @ a # mid @ b # post) = detectRiskFactors (pre @ a # mid @ post)"
    by (rule detect_duplicate[OF assms])
  have two: "detectRiskFactors [a, b] = detectRiskFactors [a]"
    using detect_duplicate[OF assms, of "[]" "[]" "[]"] by simp
  obtain sev ms where sc: "scanTiers (toLowerCase (pm_text a)) = (sev, ms)"
    by (cases "scanTiers (toLowerCase (pm_text a))")
  show ?thesis
  proof (cases "pm_text a \<noteq> [] \<and> sev \<noteq> SevNone")
    case True
    then show ?thesis
      using general two sc detectRiskFactors_single[of a sev ms] by simp
  next
    case False
    then show ?thesis
      using general two sc detectRiskFactors_single_none[of a] by auto
  qed
qed

theorem duplicate_text_one_finding_witness:
  "pm_text dupA = pm_text dupB
   \<and> detectRiskFactors [dupA, dupB] = detectRiskFactors [dupA]
   \<and> total (detectRiskFactors [dupA, dupB]) = 1
   \<and> map rp_id (examples (detectRiskFactors [dupA, dupB])) = [''a'']"
proof -
  have h: "pm_text dupA = pm_text dupB"
    by (simp add: dupA_def dupB_def)
  have s: "pm_text dupA \<noteq> [] \<and> fst (scanTiers (toLowerCase (pm_text dupA))) \<noteq> SevNone"
    by code_simp
  have i: "pm_id dupA = ''a''"
    by (simp add: dupA_def)
  from duplicate_text_one_finding[OF h, of "[]" "[]" "[]"]
  have "detectRiskFactors [dupA, dupB] = detectRiskFactors [dupA]
       \<and> total (detectRiskFactors [dupA, dupB]) = 1
       \<and> map rp_id (examples (detectRiskFactors [dupA, dupB])) = [pm_id dupA]"
    unfolding if_P[OF s] append_Nil by blast
  with h i show ?thesis by metis
qed




text \<open>
  \<^bold>\<open>C5.\<close> For every batch, the risk level of the report follows from its three counts
  by the table, read from the top: high when there is a high-risk finding, else
  medium-high when there are three or more medium-risk findings, else medium when
  there is one, else low-medium when there are five or more low-risk findings, else
  low when there is one, else none.
\<close>

theorem riskLevel_decision_table:
  "riskLevel (detectRiskFactors metrics) =
     (if highRisk (detectRiskFactors metrics) > 0 then LevelHigh
      else if mediumRisk (detectRiskFactors metrics) \<ge> 3 then LevelMediumHigh
      else if mediumRisk (detectRiskFactors metrics) > 0 then LevelMedium
      else if lowRisk (detectRiskFactors metrics) \<ge> 5 then LevelLowMedium
      else if lowRisk (detectRiskFactors metrics) > 0 then LevelLow
      else LevelNone)"
  by (simp add: detectRiskFactors_def Let_def)

theorem riskLevel_decision_table_witness:
  "highRisk (detectRiskFactors [dupA, dupB]) = 0
   \<and> mediumRisk (detectRiskFactors [dupA, dupB]) = 1
   \<and> riskLevel (detectRiskFactors [dupA, dupB]) = LevelMedium"
proof -
  have c: "highRisk (detectRiskFactors [dupA, dupB]) = 0"
    "mediumRisk (detectRiskFactors [dupA, dupB]) = 1"
    by code_simp+
  show ?thesis
    using riskLevel_decision_table[of "[dupA, dupB]"] c by simp
qed

text \<open>
  \<^bold>\<open>C9\<close>, as stated, fails on a text of more than 200 code units: the ellipsis comes
  on top of the 200 that are kept, and the excerpt has 203.
\<close>

theorem excerpt_longer_than_200_counterexample:
  "length (pm_text longPost) = 201
   \<and> map (length \<circ> rp_text) (examples (detectRiskFactors [longPost])) = [203]"
  by code_simp

text \<open>
  \<^bold>\<open>C9\<close>, amended. The text stored with a finding is the excerpt of the text of a
  record of the batch: the text itself when it has at most 200 code units, and
  otherwise its first 200 code units followed by three dots, 203 code units in all.
  So every stored excerpt has at most 203 code units.
\<close>

theorem excerpt_bound:
  "(\<forall>p \<in> set (examples (detectRiskFactors metrics)).
      (\<exists>m \<in> set metrics. rp_text p = excerpt (pm_text m)) \<and> length (rp_text p) \<le> 203)
   \<and> (length t \<le> 200 \<longrightarrow> excerpt t = t)
   \<and> (length t > 200 \<longrightarrow> excerpt t = take 200 t @ ''...'' \<and> length (excerpt t) = 203)"
proof -
  have "(\<exists>m \<in> set metrics. rp_text p = excerpt (pm_text m)) \<and> length (rp_text p) \<le> 203"
    if "p \<in> set (examples (detectRiskFactors metrics))" for p
  proof -
    from that have "p \<in> set (riskLoop metrics [] {})"
      by (auto simp: detectRiskFactors_def Let_def set_sortBy split: if_splits
               dest: in_set_takeD)
    from riskLoop_origin[OF this]
    obtain m where m: "m \<in> set metrics" "rp_text p = excerpt (pm_text m)"
      by auto
    then show ?thesis
      by (auto simp: length_excerpt)
  qed
  then show ?thesis
    by (auto simp: excerpt_def)
qed

theorem excerpt_bound_witness:
  "examples (detectRiskFactors [longPost]) \<noteq> []
   \<and> length (rp_text (hd (examples (detectRiskFactors [longPost])))) \<le> 203
   \<and> length (pm_text longPost) > 200
   \<and> length (excerpt (pm_text longPost)) = 203"
proof -
  have ne: "examples (detectRiskFactors [longPost]) \<noteq> []"
    by code_simp
  then have mem: "hd (examples (detectRiskFactors [longPost])) \<in> set (examples (detectRiskFactors [longPost]))"
    by simp
  have len: "length (pm_text longPost) > 200"
    by (simp add: longPost_def)
  show ?thesis
    using ne mem len excerpt_bound[of "[longPost]" "pm_text longPost"] by blast
qed

section \<open>Properties of the scores, the validation and the cache\<close>



lemma calculateInterestScore_components:
  "calculateInterestScore l c s v w =
     min (max ((\<Sum>(x, y) \<leftarrow> zip (normalizedEngagement l c s v w) [0.4, 0.3, 0.2, 0.1, 0.2]. x * y) * 100) 0) 100"
  by (simp add: calculateInterestScore_def normalizedEngagement_def SCORE_WEIGHTS_def Let_def
                algebra_simps)

lemma calculateInterestScore_route_components:
  "calculateInterestScore_route l c s v w =
     min (max ((\<Sum>(x, y) \<leftarrow> zip (normalizedEngagement_route l c s v w)
                                   [0.4, 0.3, 0.2, 0.05, 0.05]. x * y) * 100) 0) 100"
  by (simp add: calculateInterestScore_route_def normalizedEngagement_route_def Let_def
                algebra_simps)

text \<open>
  Inside \<open>processMetrics\<close> the interest score does not depend on the batch:
  \<open>calculateInterestScore\<close> finds none of its properties in the object of averages
  and returns the score of five zeros.
\<close>

lemma processMetrics_interestScore:
  "processMetrics ms options = Inr r \<Longrightarrow> interestScore (ar_mentalHealth r) = 0"
  by (auto simp: processMetrics_def Let_def calculateInterestScore_def withDefault_def
           split: option.splits)


lemma validateEach_map_Obj:
  "\<forall>m \<in> set ms. pm_metrics m \<noteq> None \<Longrightarrow> validateEach i (map Obj ms) = Inr ms"
  by (induction ms arbitrary: i) auto

lemma validateEach_missing_metrics:
  "Obj m \<in> set elems \<Longrightarrow> pm_metrics m = None \<Longrightarrow> \<exists>e. validateEach i elems = Inl e"
proof (induction elems arbitrary: i)
  case Nil
  then show ?case by simp
next
  case (Cons x elems)
  show ?case
  proof (cases x)
    case NonObject
    then show ?thesis by simp
  next
    case (Obj m')
    show ?thesis
    proof (cases "pm_metrics m' = None")
      case True
      with Obj show ?thesis by simp
    next
      case False
      with Cons.prems Obj have "Obj m \<in> set elems" by auto
      from Cons.IH[OF this Cons.prems(2), of "Suc i"] Obj False show ?thesis
        by auto
    qed
  qed
qed


lemma validateMetrics_map_Obj:
  "ms \<noteq> [] \<Longrightarrow> \<forall>m \<in> set ms. pm_metrics m \<noteq> None \<Longrightarrow>
     validateMetrics (Arr (map Obj ms)) = Inr ms"
  by (simp add: validateMetrics_def validateEach_map_Obj)












text \<open>
  \<^bold>\<open>C6.\<close> When the argument is not an array, is the empty array, or has an
  element without its \<open>metrics\<close> object, validation throws, and \<open>analyzeMetrics\<close>
  throws in turn: it returns no result and leaves the cache as it was.
\<close>

theorem invalid_input_fails_fast:
  assumes "metrics = NonArray \<or> metrics = Arr []
           \<or> (\<exists>elems m. metrics = Arr elems \<and> Obj m \<in> set elems \<and> pm_metrics m = None)"
  shows "\<exists>e. validateMetrics metrics = Inl e
           \<and> analyzeMetrics analysisCache now metrics options =
               (Inl (AnalysisFailed e), analysisCache)"
proof -
  have "\<exists>e. validateMetrics metrics = Inl e"
    using assms
  proof (elim disjE exE conjE)
    assume "metrics = NonArray"
    then show ?thesis by (simp add: validateMetrics_def)
  next
    assume "metrics = Arr []"
    then show ?thesis by (simp add: validateMetrics_def)
  next
    fix elems m
    assume "metrics = Arr elems" "Obj m \<in> set elems" "pm_metrics m = None"
    then show ?thesis
      using validateEach_missing_metrics[of m elems 0]
      by (auto simp: validateMetrics_def)
  qed
  then obtain e where "validateMetrics metrics = Inl e" ..
  then show ?thesis by (simp add: analyzeMetrics_def)
qed

theorem invalid_input_fails_fast_witness:
  "analyzeMetrics Map.empty 1000 NonArray options30 =
      (Inl (AnalysisFailed MetricsMustBeArray), Map.empty)
   \<and> analyzeMetrics Map.empty 1000 (Arr []) options30 =
      (Inl (AnalysisFailed NoMetricsProvided), Map.empty)
   \<and> analyzeMetrics Map.empty 1000 (Arr [Obj recA, Obj post1]) options30 =
      (Inl (AnalysisFailed (InvalidMetricsData 1)), Map.empty)"
proof -
  have v: "validateMetrics NonArray = Inl MetricsMustBeArray"
    "validateMetrics (Arr []) = Inl NoMetricsProvided"
    "validateMetrics (Arr [Obj recA, Obj post1]) = Inl (InvalidMetricsData 1)"
    by code_simp+
  have p: "Obj post1 \<in> set [Obj recA, Obj post1]" "pm_metrics post1 = None"
    by (simp_all add: post1_def)
  have 1: "analyzeMetrics Map.empty 1000 NonArray options30 =
      (Inl (AnalysisFailed MetricsMustBeArray), Map.empty)"
    using invalid_input_fails_fast[of NonArray Map.empty 1000 options30] v(1) by auto
  have 2: "analyzeMetrics Map.empty 1000 (Arr []) options30 =
      (Inl (AnalysisFailed NoMetricsProvided), Map.empty)"
    using invalid_input_fails_fast[of "Arr []" Map.empty 1000 options30] v(2) by auto
  have 3: "analyzeMetrics Map.empty 1000 (Arr [Obj recA, Obj post1]) options30 =
      (Inl (AnalysisFailed (InvalidMetricsData 1)), Map.empty)"
    using invalid_input_fails_fast[of "Arr [Obj recA, Obj post1]" Map.empty 1000 options30]
      v(3) p by auto
  from 1 2 3 show ?thesis by blast
qed



lemma cleanupCache_Some:
  "cleanupCache now c k = Some e \<Longrightarrow> c k = Some e"
  by (auto simp: cleanupCache_def split: option.splits if_splits)






end
